theory Spec2Isabelle
  imports Main
begin

section \<open>String primitives of the Go standard library used by argo\<close>

text \<open>
  Go strings are byte sequences and \<open>len\<close> counts bytes, so a Go string is a
  \<^typ>\<open>string\<close> (a list of \<^typ>\<open>char\<close>). Every cutset, prefix, suffix and
  separator that argo passes to package \<open>strings\<close> is ASCII, for which the byte-wise
  reading below coincides with the rune-wise one of the library.
\<close>

definition HasPrefix :: "string \<Rightarrow> string \<Rightarrow> bool" where
  "HasPrefix s p = (take (length p) s = p)"

definition HasSuffix :: "string \<Rightarrow> string \<Rightarrow> bool" where
  "HasSuffix s p = (length p \<le> length s \<and> drop (length s - length p) s = p)"

definition TrimLeft :: "string \<Rightarrow> string \<Rightarrow> string" where
  "TrimLeft s cutset = dropWhile (\<lambda>c. c \<in> set cutset) s"

definition TrimRight :: "string \<Rightarrow> string \<Rightarrow> string" where
  "TrimRight s cutset = rev (dropWhile (\<lambda>c. c \<in> set cutset) (rev s))"

definition Trim :: "string \<Rightarrow> string \<Rightarrow> string" where
  "Trim s cutset = TrimRight (TrimLeft s cutset) cutset"

text \<open>\<open>strings.Split(s, sep)\<close> for a one-byte separator; \<open>Split("", "=")\<close> is \<open>[""]\<close>.\<close>

fun Split :: "string \<Rightarrow> char \<Rightarrow> string list" where
  "Split [] sep = [[]]"
| "Split (c # cs) sep =
     (if c = sep then [] # Split cs sep
      else (case Split cs sep of
              [] \<Rightarrow> [[c]]
            | part # parts \<Rightarrow> (c # part) # parts))"

section \<open>Sanitising helpers\<close>

text \<open>\<open>strings.ReplaceAll(value, " ", "")\<close>\<close>

definition removeWhitespaces :: "string \<Rightarrow> string" where
  "removeWhitespaces v = filter (\<lambda>c. c \<noteq> CHR '' '') v"

definition trimWhitespaces :: "string \<Rightarrow> string" where
  "trimWhitespaces v = Trim v '' ''"

section \<open>Token classifier\<close>

definition isFlag :: "string \<Rightarrow> bool" where
  "isFlag v = (length v \<ge> 2 \<and> length v = 2 \<and> \<not> HasPrefix v ''-'')"

definition isShortFlag :: "string \<Rightarrow> bool" where
  "isShortFlag v = (isFlag v \<and> length v = 2 \<and> \<not> HasPrefix v ''--'')"

definition isInvertedFlag :: "string \<Rightarrow> bool \<times> string" where
  "isInvertedFlag v =
     (if isFlag v \<and> HasPrefix v ''--no-'' then (True, TrimLeft v ''--no-'')
      else (False, ''''))"

definition isUnsupportedFlag :: "string \<Rightarrow> bool" where
  "isUnsupportedFlag v =
     (if length v \<ge> 2 then
        (if length v = 2 then \<not> HasPrefix v ''-'' \<or> HasPrefix v ''--''
         else \<not> HasPrefix v ''--'' \<or> HasPrefix v ''---'')
      else False)"

definition isVariadicArg :: "string \<Rightarrow> bool \<times> string" where
  "isVariadicArg v =
     (if \<not> isFlag v \<and> HasSuffix v ''...'' then (True, TrimRight v ''...'')
      else (False, ''''))"

section \<open>Normalising the argument vector\<close>

text \<open>
  The loop of \<open>formatCommandValues\<close>: a token for which \<open>isFlag\<close> holds is split at
  \<open>=\<close> and the parts that are not blank are appended (untrimmed); every other token
  is appended as it is.
\<close>

fun formatCommandValues :: "string list \<Rightarrow> string list" where
  "formatCommandValues [] = []"
| "formatCommandValues (v # vs) =
     (if isFlag v
      then filter (\<lambda>part. Trim part '' '' \<noteq> '''') (Split v (CHR ''=''))
      else [v]) @ formatCommandValues vs"

section \<open>Data model\<close>

text \<open>
  The structs of the package. Go stores flags and arguments behind pointers
  (\<open>map[string]*Flag\<close>, \<open>map[string]*Arg\<close>); \<open>AddFlag\<close> and \<open>AddArg\<close> allocate a fresh object
  for every key, so the maps are modelled by value: the object a key points to is the
  record stored under that key, and a key that is absent is the nil pointer. Two keys
  sharing one object and a key holding an explicit nil, which the registration
  functions never produce, are outside the model; so is a map that was never made.
\<close>

record Flag =
  Flag_Name :: string
  Flag_ShortName :: string
  Flag_IsBoolean :: bool
  Flag_IsInverted :: bool
  Flag_Default :: string
  Flag_Value :: string

record Arg =
  Arg_Name :: string
  Arg_IsVariadic :: bool
  Arg_Default :: string
  Arg_Value :: string

record Command =
  Cmd_Name :: string
  Flags :: "string \<rightharpoonup> Flag"
  shorthandFlags :: "string \<rightharpoonup> string"
  Args :: "string \<rightharpoonup> Arg"
  ArgNames :: "string list"

record CommandRegistry =
  BaseCommand :: string
  Version :: string
  Description :: string
  Commands :: "string \<rightharpoonup> Command"

type_synonym Registry = "string \<rightharpoonup> CommandRegistry"

datatype error =
    ErrorUnknownCommand string
  | ErrorUnknownFlag string
  | ErrorUnsupportedFlag string

text \<open>The two run-time panics the code can raise, and the ways a call can end.\<close>

datatype panic = IndexOutOfRange | NilDereference

datatype 'a outcome = Panics panic | Fails error | Returns 'a

section \<open>Registration\<close>

definition NewRegistry :: Registry where
  "NewRegistry = Map.empty"

text \<open>\<open>Register\<close> returns the registry after the call, the entry and the \<open>existed\<close> flag.\<close>

definition Register ::
  "Registry \<Rightarrow> string \<Rightarrow> string \<Rightarrow> string \<Rightarrow> Registry \<times> CommandRegistry \<times> bool" where
  "Register r name version desc =
     (let commandName = removeWhitespaces name in
      case r commandName of
        Some commandConfig \<Rightarrow> (r, commandConfig, True)
      | None \<Rightarrow>
          (let commandConfig = \<lparr>BaseCommand = commandName, Version = version,
                                Description = desc, Commands = Map.empty\<rparr>
           in (r(commandName \<mapsto> commandConfig), commandConfig, False)))"

definition AddCommand :: "CommandRegistry \<Rightarrow> Command \<Rightarrow> CommandRegistry \<times> Command" where
  "AddCommand cr cmd = (cr\<lparr>Commands := (Commands cr)(Cmd_Name cmd \<mapsto> cmd)\<rparr>, cmd)"

text \<open>
  \<open>AddArg\<close> returns the command after the call, the returned argument and the
  \<open>existed\<close> flag. On a fresh name the code returns its parameter \<open>arg\<close>, not the
  stored object.
\<close>

definition AddArg :: "Command \<Rightarrow> Arg \<Rightarrow> Command \<times> Arg \<times> bool" where
  "AddArg cmd arg =
     (let cleanName = removeWhitespaces (Arg_Name arg);
          cleanDefault = removeWhitespaces (Arg_Default arg);
          (ok, argName) = isVariadicArg cleanName;
          variadic = ok;
          cleanName = (if ok then argName else cleanName)
      in case Args cmd cleanName of
           Some existing \<Rightarrow> (cmd, existing, True)
         | None \<Rightarrow>
             (let newArg = \<lparr>Arg_Name = cleanName, Arg_IsVariadic = variadic,
                             Arg_Default = cleanDefault, Arg_Value = []\<rparr>
              in (cmd\<lparr>Args := (Args cmd)(cleanName \<mapsto> newArg),
                       ArgNames := ArgNames cmd @ [cleanName]\<rparr>, arg, False)))"

definition AddFlag :: "Command \<Rightarrow> Flag \<Rightarrow> Command \<times> Flag \<times> bool" where
  "AddFlag cmd flg =
     (let cleanName = removeWhitespaces (Flag_Name flg);
          cleanShortName = removeWhitespaces (Flag_ShortName flg);
          cleanDefaultValue = removeWhitespaces (Flag_Default flg);
          cleanShortName = (if cleanShortName \<noteq> [] then take 1 cleanShortName
                            else cleanShortName);
          isInverted = (Flag_IsBoolean flg \<and> HasPrefix (Flag_Name flg) ''no-'');
          cleanName = (if isInverted then TrimLeft (Flag_Name flg) ''no-'' else cleanName);
          cleanDefaultValue =
            (if Flag_IsBoolean flg then (if isInverted then ''true'' else ''false'')
             else cleanDefaultValue);
          cleanShortName = (if isInverted then [] else cleanShortName)
      in case Flags cmd cleanName of
           Some existing \<Rightarrow> (cmd, existing, True)
         | None \<Rightarrow>
             (let flag = \<lparr>Flag_Name = cleanName, Flag_ShortName = cleanShortName,
                           Flag_IsBoolean = Flag_IsBoolean flg, Flag_IsInverted = isInverted,
                           Flag_Default = cleanDefaultValue, Flag_Value = []\<rparr>;
                  cmd1 = cmd\<lparr>Flags := (Flags cmd)(cleanName \<mapsto> flag)\<rparr>;
                  cmd2 = (if length cleanShortName > 0
                          then cmd1\<lparr>shorthandFlags :=
                                 (shorthandFlags cmd1)(cleanShortName \<mapsto> cleanName)\<rparr>
                          else cmd1)
              in (cmd2, flag, False)))"

text \<open>
  The keys under which \<open>AddArg\<close> and \<open>AddFlag\<close> look an entry up and store it, as
  functions of the declaration: for an argument the name without blanks and without a
  variadic marker; for a flag the name without blanks, or, for a boolean flag whose
  declared name starts with \<open>no-\<close>, the declared name with the leading characters of
  the cutset \<open>no-\<close> trimmed.
\<close>

definition argKey :: "Arg \<Rightarrow> string" where
  "argKey arg =
     (let cleanName = removeWhitespaces (Arg_Name arg) in
      case isVariadicArg cleanName of (ok, argName) \<Rightarrow> if ok then argName else cleanName)"

definition flagKey :: "Flag \<Rightarrow> string" where
  "flagKey flg =
     (if Flag_IsBoolean flg \<and> HasPrefix (Flag_Name flg) ''no-''
      then TrimLeft (Flag_Name flg) ''no-''
      else removeWhitespaces (Flag_Name flg))"

section \<open>The parser\<close>

text \<open>The helper \<open>next\<close> of the source: the head of the slice and the rest.\<close>

definition next_value :: "string list \<Rightarrow> string \<times> string list" where
  "next_value slice = (case slice of [] \<Rightarrow> ([], []) | v # rest \<Rightarrow> (v, rest))"

text \<open>The pre-scan over the raw arguments.\<close>

fun prescan :: "string list \<Rightarrow> error option" where
  "prescan [] = None"
| "prescan (v # vs) =
     (if isFlag v \<and> isUnsupportedFlag v then Some (ErrorUnsupportedFlag v) else prescan vs)"

text \<open>
  The positional branch: the \<open>for index, argName := range commands.ArgNames\<close> loop,
  run over the remaining names from position \<open>index\<close>. Reading \<open>arg.Value\<close> of a name
  that \<open>Args\<close> does not hold dereferences nil.
\<close>

fun assign_arg :: "Command \<Rightarrow> string \<Rightarrow> nat \<Rightarrow> string list \<Rightarrow> panic + Command" where
  "assign_arg c v index [] = Inr c"
| "assign_arg c v index (argName # rest) =
     (case Args c argName of
        None \<Rightarrow> Inl NilDereference
      | Some arg \<Rightarrow>
          if length (Arg_Value arg) = 0
          then Inr (c\<lparr>Args := (Args c)(argName \<mapsto> arg\<lparr>Arg_Value := v\<rparr>)\<rparr>)
          else if int index = int (length (ArgNames c)) - 1 \<and> Arg_IsVariadic arg
          then assign_arg
                 (c\<lparr>Args := (Args c)(argName \<mapsto> arg\<lparr>Arg_Value := Arg_Value arg @ '','' @ v\<rparr>)\<rparr>)
                 v (Suc index) rest
          else assign_arg c v (Suc index) rest)"

text \<open>
  The flag branch, for a command pointer that is not nil. The local pointer \<open>flag\<close> is
  the key of the flag it points to, \<open>None\<close> for nil: the short-flag path never assigns
  it, and the plain long path reads \<open>commands.Flags[name]\<close>, which is nil for an absent
  key. In that path \<open>flagName\<close> is the empty string that \<open>isInvertedFlag\<close> returned.
\<close>

definition resolve_flag :: "Command \<Rightarrow> string \<Rightarrow> error + string option" where
  "resolve_flag c v =
     (let name = TrimLeft v ''-'' in
      if isShortFlag v then
        (case shorthandFlags c name of
           None \<Rightarrow> Inl (ErrorUnknownFlag v)
         | Some _ \<Rightarrow> Inr None)
      else
        (case isInvertedFlag v of (ok, flagName) \<Rightarrow>
           if ok then
             (case Flags c flagName of
                None \<Rightarrow> Inl (ErrorUnknownFlag v)
              | Some _ \<Rightarrow> Inr (Some flagName))
           else
             (case Flags c flagName of
                None \<Rightarrow> Inl (ErrorUnknownFlag v)
              | Some f \<Rightarrow>
                  if Flag_IsInverted f then Inl (ErrorUnknownFlag v)
                  else (case Flags c name of None \<Rightarrow> Inr None | Some _ \<Rightarrow> Inr (Some name)))))"

definition set_flag :: "Command \<Rightarrow> string \<Rightarrow> string list \<Rightarrow> Command" where
  "set_flag c key valuesToParse =
     (case Flags c key of
        None \<Rightarrow> c
      | Some flag \<Rightarrow>
          if Flag_IsBoolean flag then
            c\<lparr>Flags := (Flags c)(key \<mapsto>
                 flag\<lparr>Flag_Value := (if Flag_IsInverted flag then ''false'' else ''true'')\<rparr>)\<rparr>
          else
            (case next_value valuesToParse of (nextValue, nextValuesToProcess) \<Rightarrow>
               if length nextValue \<noteq> 0 \<and> \<not> isFlag nextValue
               then c\<lparr>Flags := (Flags c)(key \<mapsto> flag\<lparr>Flag_Value := nextValue\<rparr>)\<rparr>
               else c))"

text \<open>One pass through the flag branch: the way the call ends, or the command to go on with.\<close>

definition flag_step ::
  "Command option \<Rightarrow> string \<Rightarrow> string list \<Rightarrow> (Command option) outcome + Command" where
  "flag_step commands v valuesToParse =
     (case commands of
        None \<Rightarrow> Inl (Panics NilDereference)
      | Some c \<Rightarrow>
          (case resolve_flag c v of
             Inl e \<Rightarrow> Inl (Fails e)
           | Inr None \<Rightarrow> Inl (Panics NilDereference)
           | Inr (Some key) \<Rightarrow> Inr (set_flag c key valuesToParse)))"

text \<open>
  The main loop. Every iteration reads \<open>next(formattedArguments)\<close>; the rest of the
  slice is bound to the loop-local \<open>valuesToParse\<close> and \<open>formattedArguments\<close> itself is
  never assigned, so the recursive call passes it on unchanged. A run of the loop that
  never ends is the value \<open>None\<close>.
\<close>

partial_function (option) parse_loop ::
  "Command option \<Rightarrow> string list \<Rightarrow> (Command option) outcome option" where
  "parse_loop commands formattedArguments =
     (case next_value formattedArguments of (v, valuesToParse) \<Rightarrow>
        if length v = 0 then Some (Returns commands)
        else if isFlag v then
          (case flag_step commands v valuesToParse of
             Inl out \<Rightarrow> Some out
           | Inr c' \<Rightarrow> parse_loop (Some c') formattedArguments)
        else
          (case commands of
             None \<Rightarrow> Some (Panics NilDereference)
           | Some c \<Rightarrow>
               (case assign_arg c v 0 (ArgNames c) of
                  Inl p \<Rightarrow> Some (Panics p)
                | Inr c' \<Rightarrow> parse_loop (Some c') formattedArguments)))"

text \<open>\<open>CommandRegistry.Parse\<close>: \<open>args[0]\<close> panics on the empty vector.\<close>

definition Parse :: "CommandRegistry \<Rightarrow> string list \<Rightarrow> (Command option) outcome option" where
  "Parse cr args =
     (case args of
        [] \<Rightarrow> Some (Panics IndexOutOfRange)
      | commandName # _ \<Rightarrow>
          (let formattedArguments = formatCommandValues args in
           case prescan args of
             Some e \<Rightarrow> Some (Fails e)
           | None \<Rightarrow> parse_loop (Commands cr commandName) formattedArguments))"

text \<open>
  \<open>Registry.Parse\<close>, as far as its source goes: the local \<open>commandName\<close> is declared and
  never assigned, so the lookup is made with the empty string. The source has no
  statement after the lookup; \<open>None\<close> stands for reaching that point without an error.
\<close>

definition Registry_Parse :: "Registry \<Rightarrow> string list \<Rightarrow> error option" where
  "Registry_Parse r args =
     (let commandName = [] in
      case prescan args of
        Some e \<Rightarrow> Some e
      | None \<Rightarrow>
          (case r commandName of
             None \<Rightarrow> Some (ErrorUnknownCommand commandName)
           | Some _ \<Rightarrow> None))"

section \<open>Declarations used as test inputs\<close>

text \<open>
  A command as a caller builds it before registering flags and arguments
  (\<open>&Command{Name: name}\<close> with its maps made), the declarations handed to \<open>AddFlag\<close>
  and \<open>AddArg\<close>, and the registry entry of the base command \<open>crn\<close>.
\<close>

definition newCommand :: "string \<Rightarrow> Command" where
  "newCommand name =
     \<lparr>Cmd_Name = name, Flags = Map.empty, shorthandFlags = Map.empty,
      Args = Map.empty, ArgNames = []\<rparr>"

definition valueFlag :: "string \<Rightarrow> string \<Rightarrow> Flag" where
  "valueFlag name short =
     \<lparr>Flag_Name = name, Flag_ShortName = short, Flag_IsBoolean = False,
      Flag_IsInverted = False, Flag_Default = [], Flag_Value = []\<rparr>"

definition boolFlag :: "string \<Rightarrow> string \<Rightarrow> Flag" where
  "boolFlag name short =
     \<lparr>Flag_Name = name, Flag_ShortName = short, Flag_IsBoolean = True,
      Flag_IsInverted = False, Flag_Default = [], Flag_Value = []\<rparr>"

definition newArg :: "string \<Rightarrow> Arg" where
  "newArg name = \<lparr>Arg_Name = name, Arg_IsVariadic = False, Arg_Default = [], Arg_Value = []\<rparr>"

definition crn_registry :: Registry where
  "crn_registry = fst (Register NewRegistry ''crn'' ''1.2'' ''CRN Generator Command'')"

definition crn :: CommandRegistry where
  "crn = fst (snd (Register NewRegistry ''crn'' ''1.2'' ''CRN Generator Command''))"

text \<open>Command \<open>generate\<close> with the value flag \<open>-g/--generate\<close> and the argument \<open>output\<close>.\<close>

definition generate_cmd :: Command where
  "generate_cmd =
     fst (AddArg (fst (AddFlag (newCommand ''generate'') (valueFlag ''generate'' ''g'')))
            (newArg ''output''))"

text \<open>Command \<open>serve\<close> with the boolean flag declared as \<open>no-verbose\<close>.\<close>

definition serve_cmd :: Command where
  "serve_cmd = fst (AddFlag (newCommand ''serve'') (boolFlag ''no-verbose'' ''v''))"

text \<open>Command \<open>greet\<close> with the arguments \<open>name\<close> and \<open>tags...\<close>.\<close>

definition greet_cmd :: Command where
  "greet_cmd =
     fst (AddArg (fst (AddArg (newCommand ''greet'') (newArg ''name''))) (newArg ''tags...''))"

text \<open>Command \<open>run\<close> with no flag and no argument.\<close>

definition run_cmd :: Command where
  "run_cmd = newCommand ''run''"

text \<open>
  The state in which the main loop cannot leave: the command pointer is not nil, the
  head of the token slice is a non-empty token that is not flag-shaped, and every
  declared argument name has its object.
\<close>

definition stuck :: "Command option \<Rightarrow> string list \<Rightarrow> bool" where
  "stuck x fa = (\<exists>c v rest. x = Some c \<and> fa = v # rest \<and> v \<noteq> [] \<and> \<not> isFlag v \<and> set (ArgNames c) \<subseteq> dom (Args c))"


section \<open>Classifier and pre-scan\<close>


lemma isFlag_unsupported: "isFlag v \<Longrightarrow> isUnsupportedFlag v"
  by (simp add: isFlag_def isUnsupportedFlag_def)

lemma prescan_None_iff: "prescan args = None \<longleftrightarrow> (\<forall>v\<in>set args. \<not> isFlag v)"
  by (induction args) (auto simp: isFlag_unsupported)

lemma prescan_Some:
  "prescan args = Some e \<Longrightarrow> \<exists>v\<in>set args. isFlag v \<and> e = ErrorUnsupportedFlag v"
  by (induction args) (auto split: if_splits)

lemma formatCommandValues_no_flag:
  "\<forall>v\<in>set args. \<not> isFlag v \<Longrightarrow> formatCommandValues args = args"
  by (induction args) auto

lemma assign_arg_total:
  "set names \<subseteq> dom (Args c) \<Longrightarrow>
   \<exists>c'. assign_arg c v i names = Inr c' \<and> ArgNames c' = ArgNames c \<and> dom (Args c') = dom (Args c)"
proof (induction names arbitrary: c i)
  case Nil
  then show ?case by simp
next
  case (Cons n names)
  from Cons.prems obtain a where a: "Args c n = Some a" by auto
  show ?case
  proof (cases "length (Arg_Value a) = 0")
    case True
    then show ?thesis using a by auto
  next
    case False
    note nonempty = this
    show ?thesis
    proof (cases "int i = int (length (ArgNames c)) - 1 \<and> Arg_IsVariadic a")
      case True
      define c1 where "c1 = c\<lparr>Args := (Args c)(n \<mapsto> a\<lparr>Arg_Value := Arg_Value a @ '','' @ v\<rparr>)\<rparr>"
      have d1: "dom (Args c1) = dom (Args c)" "ArgNames c1 = ArgNames c"
        using a by (auto simp: c1_def)
      have "set names \<subseteq> dom (Args c1)" using Cons.prems d1 by auto
      from Cons.IH[OF this, of "Suc i"] obtain c' where
        "assign_arg c1 v (Suc i) names = Inr c'" "ArgNames c' = ArgNames c1"
        "dom (Args c') = dom (Args c1)" by blast
      moreover have "assign_arg c v i (n # names) = assign_arg c1 v (Suc i) names"
        using a nonempty True by (simp add: c1_def)
      ultimately show ?thesis using d1 by simp
    next
      case False
      have "set names \<subseteq> dom (Args c)" using Cons.prems by auto
      from Cons.IH[OF this, of "Suc i"] obtain c' where
        "assign_arg c v (Suc i) names = Inr c'" "ArgNames c' = ArgNames c"
        "dom (Args c') = dom (Args c)" by blast
      moreover have "assign_arg c v i (n # names) = assign_arg c v (Suc i) names"
        using a nonempty False by auto
      ultimately show ?thesis by simp
    qed
  qed
qed

lemma parse_loop_stuck:
  assumes "parse_loop x fa = Some r"
  shows "\<not> stuck x fa"
proof (rule parse_loop.raw_induct[where P = "\<lambda>x fa r. \<not> stuck x fa", OF _ assms], goal_cases)
  case (1 loop commands fa r)
  show ?case
  proof
    assume "stuck commands fa"
    then obtain c v rest where s: "commands = Some c" "fa = v # rest" "v \<noteq> []" "\<not> isFlag v"
      "set (ArgNames c) \<subseteq> dom (Args c)" by (auto simp: stuck_def)
    from assign_arg_total[OF s(5), of v 0] obtain c' where
      c': "assign_arg c v 0 (ArgNames c) = Inr c'" "ArgNames c' = ArgNames c" "dom (Args c') = dom (Args c)"
      by auto
    from 1 s c' have "loop (Some c') fa = Some r" by (simp add: next_value_def)
    from 1(1)[OF this] have "\<not> stuck (Some c') fa" .
    moreover have "stuck (Some c') fa" using s c' by (simp add: stuck_def)
    ultimately show False by contradiction
  qed
qed

lemma parse_loop_diverges:
  "v \<noteq> [] \<Longrightarrow> \<not> isFlag v \<Longrightarrow> set (ArgNames c) \<subseteq> dom (Args c) \<Longrightarrow> parse_loop (Some c) (v # rest) = None"
proof (rule ccontr)
  assume a: "v \<noteq> []" "\<not> isFlag v" "set (ArgNames c) \<subseteq> dom (Args c)" and "parse_loop (Some c) (v # rest) \<noteq> None"
  then obtain r where "parse_loop (Some c) (v # rest) = Some r" by auto
  from parse_loop_stuck[OF this] a show False by (simp add: stuck_def)
qed

lemma Parse_diverges:
  assumes "v \<noteq> []" "\<forall>a\<in>set (v # rest). \<not> isFlag a" "Commands cr v = Some c" "set (ArgNames c) \<subseteq> dom (Args c)"
  shows "Parse cr (v # rest) = None"
proof -
  have p: "prescan (v # rest) = None" using assms(2) prescan_None_iff by blast
  have f: "formatCommandValues (v # rest) = v # rest" using assms(2) by (rule formatCommandValues_no_flag)
  have "\<not> isFlag v" using assms(2) by simp
  from parse_loop_diverges[OF assms(1) this assms(4)] show ?thesis
    unfolding Parse_def using p f assms(3) by simp
qed

lemma assign_arg_panic: "assign_arg c v i names = Inl p \<Longrightarrow> p = NilDereference"
  by (induction names arbitrary: c i) (auto split: option.splits if_splits)

lemma parse_loop_outcomes:
  assumes "parse_loop x fa = Some r"
  shows "\<not> isFlag (fst (next_value fa)) \<longrightarrow> r = Panics NilDereference \<or> (\<exists>c. r = Returns c)"
proof (rule parse_loop.raw_induct[where P = "\<lambda>x fa r. \<not> isFlag (fst (next_value fa)) \<longrightarrow>
         r = Panics NilDereference \<or> (\<exists>c. r = Returns c)", OF _ assms], goal_cases)
  case (1 loop commands fa r)
  then show ?case
    by (auto split: prod.splits if_splits option.splits sum.splits dest: assign_arg_panic)
qed

lemma Parse_outcomes:
  assumes "Parse cr args = Some r"
  shows "(args = [] \<and> r = Panics IndexOutOfRange)
       \<or> (\<exists>v\<in>set args. isFlag v \<and> r = Fails (ErrorUnsupportedFlag v))
       \<or> r = Panics NilDereference
       \<or> (\<exists>c. r = Returns c)"
proof (cases args)
  case Nil
  then show ?thesis using assms by (simp add: Parse_def)
next
  case (Cons v rest)
  show ?thesis
  proof (cases "prescan args")
    case (Some e)
    with assms Cons have "r = Fails e" by (simp add: Parse_def)
    with prescan_Some[OF Some] show ?thesis by blast
  next
    case None
    then have nf: "\<forall>a\<in>set args. \<not> isFlag a" by (simp add: prescan_None_iff)
    then have f: "formatCommandValues args = args" by (rule formatCommandValues_no_flag)
    from assms Cons None f have loop: "parse_loop (Commands cr v) args = Some r"
      by (simp add: Parse_def)
    have "\<not> isFlag (fst (next_value args))" using nf Cons by (simp add: next_value_def)
    with parse_loop_outcomes[OF loop] show ?thesis by blast
  qed
qed

section \<open>Registration lemmas\<close>

lemma AddFlag_existing:
  "Flags cmd (flagKey flg) = Some stored \<Longrightarrow> AddFlag cmd flg = (cmd, stored, True)"
  by (simp add: AddFlag_def flagKey_def Let_def)

lemma AddFlag_stores: "\<exists>stored. Flags (fst (AddFlag cmd flg)) (flagKey flg) = Some stored"
  by (cases "Flags cmd (flagKey flg)") (auto simp: AddFlag_def flagKey_def Let_def)

lemma AddArg_existing:
  "Args cmd (argKey arg) = Some stored \<Longrightarrow> AddArg cmd arg = (cmd, stored, True)"
  by (auto simp: AddArg_def argKey_def Let_def split: prod.splits)

lemma AddArg_stores: "\<exists>stored. Args (fst (AddArg cmd arg)) (argKey arg) = Some stored"
  by (cases "Args cmd (argKey arg)") (auto simp: AddArg_def argKey_def Let_def split: prod.splits)

text \<open>
  Where the declared name starts with \<open>no-\<close>, the key of the flag depends on its
  boolean kind: the value flag keeps the prefix, the boolean flag loses it.
\<close>

lemma flagKey_kind_differs:
  assumes "Flag_Name f2 = Flag_Name f1" "HasPrefix (Flag_Name f1) ''no-''"
    "Flag_IsBoolean f2 \<noteq> Flag_IsBoolean f1"
  shows "flagKey f2 \<noteq> flagKey f1"
proof -
  from assms(2) obtain rest where n: "Flag_Name f1 = CHR ''n'' # rest"
    by (cases "Flag_Name f1") (auto simp: HasPrefix_def)
  have a: "hd (removeWhitespaces (Flag_Name f1)) = CHR ''n''"
       "removeWhitespaces (Flag_Name f1) \<noteq> []"
    using n by (simp_all add: removeWhitespaces_def)
  have b: "TrimLeft (Flag_Name f1) ''no-'' = [] \<or> hd (TrimLeft (Flag_Name f1) ''no-'') \<noteq> CHR ''n''"
    unfolding TrimLeft_def using hd_dropWhile[of "\<lambda>c. c \<in> set ''no-''" "Flag_Name f1"]
    by auto
  show ?thesis using assms a b by (auto simp: flagKey_def)
qed

lemma AddFlag_fresh:
  "Flags cmd (flagKey flg) = None \<Longrightarrow>
   snd (snd (AddFlag cmd flg)) = False \<and> Flags (fst (AddFlag cmd flg)) (flagKey flg) \<noteq> None"
  by (simp add: AddFlag_def flagKey_def Let_def)

lemmas classifier_defs =
  isFlag_def isShortFlag_def isUnsupportedFlag_def isInvertedFlag_def isVariadicArg_def
  HasPrefix_def HasSuffix_def TrimLeft_def TrimRight_def Trim_def removeWhitespaces_def

lemmas registration_defs =
  NewRegistry_def Register_def AddCommand_def AddFlag_def AddArg_def Let_def

section \<open>The claims\<close>

text \<open>
  C1. The example scenario of the specification: command \<open>generate\<close> with the value
  flag \<open>generate\<close> (shorthand \<open>g\<close>) and the argument \<open>output\<close>, parsed on
  \<open>["generate", "-g", "myval", "result.txt"]\<close>, should return without error with
  \<open>generate = "myval"\<close> and \<open>output = "result.txt"\<close>. On the code the declarations are
  stored as expected, no token of the vector is flag-shaped, and the call never returns:
  each iteration reads the head \<open>generate\<close> of the unchanged slice again.
\<close>

theorem Parse_generate_example_diverges:
  "Flags generate_cmd ''generate'' = Some (valueFlag ''generate'' ''g'')
   \<and> shorthandFlags generate_cmd ''g'' = Some ''generate''
   \<and> Args generate_cmd ''output'' = Some (newArg ''output'')
   \<and> \<not> isFlag ''-g''
   \<and> Parse (fst (AddCommand crn generate_cmd)) [''generate'', ''-g'', ''myval'', ''result.txt'']
       = None"
proof -
  have "Parse (fst (AddCommand crn generate_cmd)) (''generate'' # [''-g'', ''myval'', ''result.txt''])
        = None"
    by (rule Parse_diverges[where c = generate_cmd])
       (simp_all add: generate_cmd_def newCommand_def valueFlag_def newArg_def crn_def registration_defs classifier_defs)
  then show ?thesis
    by (simp add: generate_cmd_def newCommand_def valueFlag_def newArg_def crn_def registration_defs classifier_defs)
qed

text \<open>
  C2. The main loop of \<open>CommandRegistry.Parse\<close> should end once the token stream is
  exhausted, so that \<open>Parse\<close> returns on every input. On the code the call on \<open>["run"]\<close>
  for the registered command \<open>run\<close> never returns.
\<close>

theorem Parse_run_diverges:
  "Parse (fst (AddCommand crn run_cmd)) [''run''] = None"
  by (rule Parse_diverges[where c = run_cmd])
     (simp_all add: run_cmd_def newCommand_def crn_def registration_defs classifier_defs)

text \<open>
  C3. \<open>Parse\<close> should return a command or one of the three typed errors on every
  argument vector. On the code the empty vector panics at \<open>args[0]\<close>, a selector
  that names no registered command panics on the nil command in the positional branch,
  and the empty selector returns the nil command with no error.
\<close>

theorem Parse_panics:
  "Parse cr [] = Some (Panics IndexOutOfRange)
   \<and> Commands crn ''nosuch'' = None
   \<and> Parse crn [''nosuch''] = Some (Panics NilDereference)
   \<and> Parse crn [[]] = Some (Returns None)"
proof -
  have "parse_loop None [''nosuch''] = Some (Panics NilDereference)"
    by (subst parse_loop.simps) (simp add: next_value_def classifier_defs)
  moreover have "parse_loop None [[]] = Some (Returns None)"
    by (subst parse_loop.simps) (simp add: next_value_def)
  ultimately show ?thesis
    by (simp add: Parse_def crn_def registration_defs classifier_defs)
qed

text \<open>
  C4. The token \<open>--flag=value\<close> should be split at \<open>=\<close> into \<open>--flag\<close> and \<open>value\<close>.
  On the code the token is not flag-shaped for \<open>isFlag\<close> (its length is not 2), so
  \<open>formatCommandValues\<close> passes it on whole.
\<close>

theorem formatCommandValues_long_flag_unsplit:
  "\<not> isFlag ''--flag=value''
   \<and> formatCommandValues [''--flag=value''] = [''--flag=value'']
   \<and> formatCommandValues [''--flag=value''] \<noteq> [''--flag'', ''value'']"
  by (simp add: classifier_defs)

text \<open>
  C5 (as amended). \<open>isUnsupportedFlag\<close> holds for a token of length 2 iff it does not
  start with \<open>-\<close> or starts with \<open>--\<close>, for a longer token iff it does not start with
  \<open>--\<close> or starts with \<open>---\<close>, and for no shorter token. So \<open>-ab\<close>, \<open>---g\<close> and
  \<open>-good\<close> are unsupported, and \<open>-g\<close>, \<open>--good\<close> and the three-character \<open>--g\<close> are
  supported.
\<close>

theorem isUnsupportedFlag_shapes:
  "(length v = 2 \<longrightarrow> (isUnsupportedFlag v \<longleftrightarrow> \<not> HasPrefix v ''-'' \<or> HasPrefix v ''--''))
   \<and> (length v > 2 \<longrightarrow> (isUnsupportedFlag v \<longleftrightarrow> \<not> HasPrefix v ''--'' \<or> HasPrefix v ''---''))
   \<and> (length v < 2 \<longrightarrow> \<not> isUnsupportedFlag v)
   \<and> isUnsupportedFlag ''-ab'' \<and> \<not> isUnsupportedFlag ''-g'' \<and> \<not> isUnsupportedFlag ''--good''
   \<and> \<not> isUnsupportedFlag ''--g'' \<and> isUnsupportedFlag ''---g'' \<and> isUnsupportedFlag ''-good''"
  by (simp add: isUnsupportedFlag_def HasPrefix_def)

theorem isUnsupportedFlag_shapes_witness:
  "length ''-x'' = 2 \<and> \<not> isUnsupportedFlag ''-x''
   \<and> length ''--'' = 2 \<and> isUnsupportedFlag ''--''
   \<and> length ''--name'' > 2 \<and> \<not> isUnsupportedFlag ''--name''
   \<and> length ''x'' < 2 \<and> \<not> isUnsupportedFlag ''x''"
  using isUnsupportedFlag_shapes [of "''-x''"] isUnsupportedFlag_shapes [of "''--''"]
    isUnsupportedFlag_shapes [of "''--name''"] isUnsupportedFlag_shapes [of "''x''"]
  by (simp add: HasPrefix_def)

text \<open>
  C5 as stated lists \<open>--g\<close> among the unsupported tokens; the token has three
  characters, starts with \<open>--\<close> and not with \<open>---\<close>, and the code accepts it.
\<close>

theorem isUnsupportedFlag_dash_dash_g_counterexample:
  "length ''--g'' = 3 \<and> \<not> isUnsupportedFlag ''--g''"
  by (simp add: isUnsupportedFlag_def HasPrefix_def)

text \<open>
  C6. Registering the boolean flag \<open>no-verbose\<close> stores a flag \<open>verbose\<close> that is
  inverted, has no shorthand and defaults to \<open>true\<close>, and a boolean flag without the
  prefix defaults to \<open>false\<close>; parsing a vector with the token \<open>--no-verbose\<close> should
  then set the flag's value to \<open>false\<close>. On the code the registration is as claimed,
  and the parse of \<open>["serve", "--no-verbose"]\<close> never returns.
\<close>

theorem Parse_no_verbose_diverges:
  "Flags serve_cmd ''verbose'' =
     Some \<lparr>Flag_Name = ''verbose'', Flag_ShortName = [], Flag_IsBoolean = True,
           Flag_IsInverted = True, Flag_Default = ''true'', Flag_Value = []\<rparr>
   \<and> Flag_Default (fst (snd (AddFlag (newCommand ''serve'') (boolFlag ''verbose'' ''v''))))
       = ''false''
   \<and> \<not> isFlag ''--no-verbose''
   \<and> Parse (fst (AddCommand crn serve_cmd)) [''serve'', ''--no-verbose''] = None"
proof -
  have "Parse (fst (AddCommand crn serve_cmd)) (''serve'' # [''--no-verbose'']) = None"
    by (rule Parse_diverges[where c = serve_cmd])
       (simp_all add: serve_cmd_def newCommand_def boolFlag_def crn_def registration_defs classifier_defs)
  then show ?thesis
    by (simp add: serve_cmd_def newCommand_def boolFlag_def crn_def registration_defs classifier_defs)
qed

text \<open>
  C7. With the arguments \<open>name\<close> and \<open>tags...\<close> declared, the positional tokens
  \<open>alice x y z\<close> should give \<open>name = "alice"\<close> and \<open>tags = "x,y,z"\<close>. On the code
  \<open>tags\<close> is stored as variadic, and the parse of \<open>["greet", "alice", "x", "y", "z"]\<close>
  never returns.
\<close>

theorem Parse_variadic_diverges:
  "ArgNames greet_cmd = [''name'', ''tags'']
   \<and> Args greet_cmd ''tags'' = Some ((newArg ''tags'')\<lparr>Arg_IsVariadic := True\<rparr>)
   \<and> Parse (fst (AddCommand crn greet_cmd)) [''greet'', ''alice'', ''x'', ''y'', ''z''] = None"
proof -
  have "Parse (fst (AddCommand crn greet_cmd)) (''greet'' # [''alice'', ''x'', ''y'', ''z'']) = None"
    by (rule Parse_diverges[where c = greet_cmd])
       (simp_all add: greet_cmd_def newCommand_def newArg_def crn_def registration_defs classifier_defs)
  then show ?thesis
    by (simp add: greet_cmd_def newCommand_def newArg_def crn_def registration_defs classifier_defs)
qed

text \<open>
  C8 (as amended). Registering the same flag name twice, where the two declarations
  have the same boolean kind or the name does not start with \<open>no-\<close>, or the same
  argument name twice, returns the stored entry with \<open>existed = true\<close> and leaves the
  command (flag map, shorthand map, argument map and argument name list) as it was
  after the first call.
\<close>

theorem AddFlag_AddArg_again:
  "(Flag_Name f2 = Flag_Name f1
      \<and> (Flag_IsBoolean f2 = Flag_IsBoolean f1 \<or> \<not> HasPrefix (Flag_Name f1) ''no-'') \<longrightarrow>
      (\<exists>stored. Flags (fst (AddFlag cmd f1)) (flagKey f1) = Some stored
         \<and> AddFlag (fst (AddFlag cmd f1)) f2 = (fst (AddFlag cmd f1), stored, True)))
   \<and> (Arg_Name a2 = Arg_Name a1 \<longrightarrow>
      (\<exists>stored. Args (fst (AddArg cmd a1)) (argKey a1) = Some stored
         \<and> AddArg (fst (AddArg cmd a1)) a2 = (fst (AddArg cmd a1), stored, True)))"
proof (intro conjI impI)
  assume same: "Flag_Name f2 = Flag_Name f1
      \<and> (Flag_IsBoolean f2 = Flag_IsBoolean f1 \<or> \<not> HasPrefix (Flag_Name f1) ''no-'')"
  then have key: "flagKey f2 = flagKey f1" by (auto simp: flagKey_def)
  from AddFlag_stores[of cmd f1] obtain stored where
    st: "Flags (fst (AddFlag cmd f1)) (flagKey f1) = Some stored" by blast
  with key have "Flags (fst (AddFlag cmd f1)) (flagKey f2) = Some stored" by simp
  from AddFlag_existing[OF this] st
  show "\<exists>stored. Flags (fst (AddFlag cmd f1)) (flagKey f1) = Some stored
         \<and> AddFlag (fst (AddFlag cmd f1)) f2 = (fst (AddFlag cmd f1), stored, True)" by blast
next
  assume same: "Arg_Name a2 = Arg_Name a1"
  then have key: "argKey a2 = argKey a1" by (simp add: argKey_def)
  from AddArg_stores[of cmd a1] obtain stored where
    st: "Args (fst (AddArg cmd a1)) (argKey a1) = Some stored" by blast
  with key have "Args (fst (AddArg cmd a1)) (argKey a2) = Some stored" by simp
  from AddArg_existing[OF this] st
  show "\<exists>stored. Args (fst (AddArg cmd a1)) (argKey a1) = Some stored
         \<and> AddArg (fst (AddArg cmd a1)) a2 = (fst (AddArg cmd a1), stored, True)" by blast
qed

theorem AddFlag_AddArg_again_witness:
  "Flag_Name (valueFlag ''generate'' ''x'') = Flag_Name (valueFlag ''generate'' ''g'')
   \<and> Flag_IsBoolean (valueFlag ''generate'' ''x'') = Flag_IsBoolean (valueFlag ''generate'' ''g'')
   \<and> AddFlag (fst (AddFlag (newCommand ''generate'') (valueFlag ''generate'' ''g'')))
        (valueFlag ''generate'' ''x'')
       = (fst (AddFlag (newCommand ''generate'') (valueFlag ''generate'' ''g'')),
          valueFlag ''generate'' ''g'', True)
   \<and> Flag_Name (boolFlag ''verbose'' ''v'') = Flag_Name (valueFlag ''verbose'' ''v'')
   \<and> Flag_IsBoolean (boolFlag ''verbose'' ''v'') \<noteq> Flag_IsBoolean (valueFlag ''verbose'' ''v'')
   \<and> HasPrefix (Flag_Name (valueFlag ''verbose'' ''v'')) ''no-'' = False
   \<and> AddFlag (fst (AddFlag (newCommand ''serve'') (valueFlag ''verbose'' ''v'')))
        (boolFlag ''verbose'' ''v'')
       = (fst (AddFlag (newCommand ''serve'') (valueFlag ''verbose'' ''v'')),
          valueFlag ''verbose'' ''v'', True)
   \<and> Arg_Name ((newArg ''tags...'')\<lparr>Arg_Default := ''d''\<rparr>) = Arg_Name (newArg ''tags...'')
   \<and> AddArg (fst (AddArg (newCommand ''generate'') (newArg ''tags...'')))
        ((newArg ''tags...'')\<lparr>Arg_Default := ''d''\<rparr>)
       = (fst (AddArg (newCommand ''generate'') (newArg ''tags...'')),
          (newArg ''tags'')\<lparr>Arg_IsVariadic := True\<rparr>, True)"
  using AddFlag_AddArg_again [of "valueFlag ''generate'' ''x''" "valueFlag ''generate'' ''g''"
      "newCommand ''generate''" "(newArg ''tags...'')\<lparr>Arg_Default := ''d''\<rparr>" "newArg ''tags...''"]
    AddFlag_AddArg_again [of "boolFlag ''verbose'' ''v''" "valueFlag ''verbose'' ''v''"
      "newCommand ''serve''" "newArg ''name''" "newArg ''name''"]
  by (simp add: newCommand_def valueFlag_def boolFlag_def newArg_def registration_defs
      classifier_defs flagKey_def argKey_def)

text \<open>
  C8 as stated speaks of the same flag name only. The name \<open>no-x\<close> registered first as
  a value flag and then as a boolean flag is stored under \<open>no-x\<close> and then under \<open>x\<close>:
  the second call reports \<open>existed = false\<close> and adds an entry.
\<close>

theorem AddFlag_same_name_counterexample:
  "Flag_Name (boolFlag ''no-x'' []) = Flag_Name (valueFlag ''no-x'' [])
   \<and> snd (snd (AddFlag (fst (AddFlag (newCommand ''c'') (valueFlag ''no-x'' [])))
                  (boolFlag ''no-x'' []))) = False
   \<and> Flags (fst (AddFlag (newCommand ''c'') (valueFlag ''no-x'' []))) ''x'' = None
   \<and> Flags (fst (AddFlag (fst (AddFlag (newCommand ''c'') (valueFlag ''no-x'' [])))
                  (boolFlag ''no-x'' []))) ''x'' \<noteq> None"
  by (simp add: newCommand_def valueFlag_def boolFlag_def registration_defs classifier_defs)

text \<open>
  C9. The caller-facing \<open>Parse\<close> should return \<open>UnknownCommand\<close>, carrying the selector,
  exactly when the selector of the argument vector is not registered. On the code
  \<open>Registry.Parse\<close> looks up the empty string whatever the vector is: with the base
  command \<open>crn\<close> registered, the vector \<open>["crn", "generate"]\<close> gets \<open>UnknownCommand\<close>
  with an empty name.
\<close>

theorem Registry_Parse_registered_selector:
  "crn_registry ''crn'' = Some crn
   \<and> Registry_Parse crn_registry [''crn'', ''generate''] = Some (ErrorUnknownCommand [])"
  by (simp add: Registry_Parse_def crn_registry_def crn_def registration_defs classifier_defs)

text \<open>
  C10. Every token for which \<open>isFlag\<close> holds is unsupported for \<open>isUnsupportedFlag\<close>; so
  once the pre-scan has passed no token that the main loop can read is flag-shaped, and
  \<open>CommandRegistry.Parse\<close> returns an \<open>UnknownFlag\<close> error on no input.
\<close>

theorem Parse_never_UnknownFlag:
  "(isFlag v \<longrightarrow> isUnsupportedFlag v)
   \<and> (prescan args = None \<longrightarrow> (\<forall>t\<in>set (formatCommandValues args). \<not> isFlag t))
   \<and> Parse cr args \<noteq> Some (Fails (ErrorUnknownFlag n))"
proof (intro conjI impI)
  show "isFlag v \<Longrightarrow> isUnsupportedFlag v" by (rule isFlag_unsupported)
next
  assume "prescan args = None"
  then have nf: "\<forall>a\<in>set args. \<not> isFlag a" by (simp add: prescan_None_iff)
  then show "\<forall>t\<in>set (formatCommandValues args). \<not> isFlag t"
    by (simp add: formatCommandValues_no_flag)
next
  show "Parse cr args \<noteq> Some (Fails (ErrorUnknownFlag n))"
  proof
    assume "Parse cr args = Some (Fails (ErrorUnknownFlag n))"
    from Parse_outcomes[OF this] show False by auto
  qed
qed

theorem Parse_never_UnknownFlag_witness:
  "isFlag ''ab'' \<and> isUnsupportedFlag ''ab''
   \<and> prescan [''generate'', ''-g'', ''x=y''] = None
   \<and> formatCommandValues [''generate'', ''-g'', ''x=y''] = [''generate'', ''-g'', ''x=y'']
   \<and> \<not> isFlag ''generate'' \<and> \<not> isFlag ''-g'' \<and> \<not> isFlag ''x=y''
   \<and> Parse crn [''generate'', ''-g'', ''x=y''] \<noteq> Some (Fails (ErrorUnknownFlag ''-g''))"
  using Parse_never_UnknownFlag [of "''ab''" "[''generate'', ''-g'', ''x=y'']" crn "''-g''"]
  by (simp add: classifier_defs)

end
